theory Spec2Isabelle
  imports Complex_Main "HOL-Library.Word"
begin

section \<open>The registration form of the personal finance tracker\<close>

text \<open>
  The development follows \<^verbatim>\<open>frontend/src/auth/Register.js\<close>: a React component with
  four pieces of state and one asynchronous submission handler, \<^verbatim>\<open>handleSubmit\<close>.
  The handler is embedded as a function on explicit state; every call it makes to the
  outside (the event, the state setter, \<^verbatim>\<open>fetch\<close>, \<^verbatim>\<open>login\<close>, \<^verbatim>\<open>navigate\<close>) is appended to
  a list of calls, in the order of the source, and every way the \<^verbatim>\<open>async\<close> function can end
  (suspended at an \<^verbatim>\<open>await\<close>, fulfilled, rejected) is a value.
\<close>

subsection \<open>JavaScript values\<close>

text \<open>
  What \<^verbatim>\<open>res.json()\<close> can resolve with: a JSON value. Numbers are carried as rationals
  (the handler never computes with them; only whether one is zero matters, for
  truthiness). An object is the list of its own properties.
\<close>

datatype json =
    JNull
  | JBool bool
  | JNum rat
  | JStr string
  | JArr "json list"
  | JObj "(string \<times> json) list"

text \<open>A property read can also give \<^verbatim>\<open>undefined\<close>, which is not a JSON value.\<close>

datatype jsval = Undefined | Value json

text \<open>
  The value of a field of a parsed body, as the specification speaks of it: the member of that
  name when the body is an object that has one, and \<^verbatim>\<open>undefined\<close> for an object without
  it and for a boolean, a number, a string or an array.
\<close>

abbreviation field_value :: "json \<Rightarrow> string \<Rightarrow> jsval" where
  "field_value data k \<equiv>
     (case data of
        JObj fs \<Rightarrow> (case map_of fs k of None \<Rightarrow> Undefined | Some v \<Rightarrow> Value v)
      | _ \<Rightarrow> Undefined)"

text \<open>
  The strings of the form fields are JavaScript strings: sequences of 16-bit code units,
  in which a surrogate may stand alone. \<open>str\<close> writes an ASCII literal as code units.
  The strings inside a response are passed on and never looked into; they stay HOL strings.
\<close>

type_synonym jsstring = "16 word list"

definition str :: "string \<Rightarrow> jsstring" where
  "str s = map (\<lambda>c. of_nat (of_char c)) s"

text \<open>The property names the handler reads from the parsed body.\<close>

datatype key = Key_error | Key_user | Key_access_token

fun key_name :: "key \<Rightarrow> string" where
  "key_name Key_error = ''error''"
| "key_name Key_user = ''user''"
| "key_name Key_access_token = ''access_token''"

text \<open>
  What a rejected promise carries: the reason the platform gave (opaque here), or the
  \<^verbatim>\<open>TypeError\<close> that JavaScript throws when a property of \<^verbatim>\<open>null\<close> is read.
\<close>

datatype js_error = Reason jsval | TypeError_read_of_null key

text \<open>
  The three property reads of the handler, \<^verbatim>\<open>data.error\<close>, \<^verbatim>\<open>data.user\<close> and
  \<^verbatim>\<open>data.access_token\<close>. None of the three names is defined by a built-in prototype,
  so on an object the read gives the own property or \<^verbatim>\<open>undefined\<close>, and on a boolean,
  a number, a string or an array it gives \<^verbatim>\<open>undefined\<close>. On \<^verbatim>\<open>null\<close> the read throws.
\<close>

fun get_prop :: "json \<Rightarrow> key \<Rightarrow> js_error + jsval" where
  "get_prop JNull p = Inl (TypeError_read_of_null p)"
| "get_prop (JObj fs) p =
     Inr (case map_of fs (key_name p) of None \<Rightarrow> Undefined | Some v \<Rightarrow> Value v)"
| "get_prop (JBool b) p = Inr Undefined"
| "get_prop (JNum n) p = Inr Undefined"
| "get_prop (JStr s) p = Inr Undefined"
| "get_prop (JArr xs) p = Inr Undefined"

text \<open>JavaScript truthiness, as the \<^verbatim>\<open>&&\<close> of the render function tests it.\<close>

fun truthy :: "jsval \<Rightarrow> bool" where
  "truthy Undefined = False"
| "truthy (Value JNull) = False"
| "truthy (Value (JBool b)) = b"
| "truthy (Value (JNum n)) = (n \<noteq> 0)"
| "truthy (Value (JStr s)) = (s \<noteq> [])"
| "truthy (Value (JArr xs)) = True"
| "truthy (Value (JObj fs)) = True"

subsection \<open>\<^verbatim>\<open>JSON.stringify\<close> on an object of strings\<close>

text \<open>
  The handler serialises \<^verbatim>\<open>{ username, email, password }\<close>, an object whose three
  property values are strings. \<^verbatim>\<open>JSON.stringify\<close> writes such an object as
  \<^verbatim>\<open>{"k":"v",...}\<close>, in property order, each string quoted by the standard's
  \<^verbatim>\<open>QuoteJSONString\<close>. That operation walks the code points of the string: a leading
  surrogate followed by a trailing one is one code point and is copied as the pair; the
  quote, the backslash and the control characters with a short form get that form; any
  other code unit below \<^verbatim>\<open>0x20\<close> and any surrogate standing alone is written as
  \<^verbatim>\<open>\uXXXX\<close> with four lowercase hexadecimal digits; every other code unit is copied.
\<close>

definition backslash :: "16 word" where
  "backslash = 0x5C"

definition dquote :: "16 word" where
  "dquote = 0x22"

definition colon :: "16 word" where
  "colon = 0x3A"

definition comma :: "16 word" where
  "comma = 0x2C"

definition lbrace :: "16 word" where
  "lbrace = 0x7B"

definition rbrace :: "16 word" where
  "rbrace = 0x7D"

definition hex_digit :: "nat \<Rightarrow> 16 word" where
  "hex_digit n = (if n mod 16 < 10 then of_nat (48 + n mod 16) else of_nat (87 + n mod 16))"

definition UnicodeEscape :: "16 word \<Rightarrow> jsstring" where
  "UnicodeEscape c =
     [backslash, 0x75,
      hex_digit (unat c div 4096), hex_digit (unat c div 256),
      hex_digit (unat c div 16), hex_digit (unat c)]"

definition leading_surrogate :: "16 word \<Rightarrow> bool" where
  "leading_surrogate c = (0xD800 \<le> c \<and> c \<le> 0xDBFF)"

definition trailing_surrogate :: "16 word \<Rightarrow> bool" where
  "trailing_surrogate c = (0xDC00 \<le> c \<and> c \<le> 0xDFFF)"

definition escape_unit :: "16 word \<Rightarrow> jsstring" where
  "escape_unit c =
     (if c = 0x08 then [backslash, 0x62]
      else if c = 0x09 then [backslash, 0x74]
      else if c = 0x0A then [backslash, 0x6E]
      else if c = 0x0C then [backslash, 0x66]
      else if c = 0x0D then [backslash, 0x72]
      else if c = dquote then [backslash, dquote]
      else if c = backslash then [backslash, backslash]
      else if c < 0x20 \<or> leading_surrogate c \<or> trailing_surrogate c then UnicodeEscape c
      else [c])"

fun quote_units :: "jsstring \<Rightarrow> jsstring" where
  "quote_units [] = []"
| "quote_units [c] = escape_unit c"
| "quote_units (c # d # cs) =
     (if leading_surrogate c \<and> trailing_surrogate d then c # d # quote_units cs
      else escape_unit c @ quote_units (d # cs))"

definition QuoteJSONString :: "jsstring \<Rightarrow> jsstring" where
  "QuoteJSONString s = dquote # quote_units s @ [dquote]"

fun members :: "(jsstring \<times> jsstring) list \<Rightarrow> jsstring" where
  "members [] = []"
| "members [(k, v)] = QuoteJSONString k @ colon # QuoteJSONString v"
| "members ((k, v) # kvs) =
     QuoteJSONString k @ colon # QuoteJSONString v @ comma # members kvs"

definition JSON_stringify :: "(jsstring \<times> jsstring) list \<Rightarrow> jsstring" where
  "JSON_stringify kvs = lbrace # members kvs @ [rbrace]"








subsection \<open>The component and its collaborators\<close>

text \<open>
  The four \<^verbatim>\<open>useState\<close> cells. The error cell holds whatever \<^verbatim>\<open>setError\<close> was given,
  which need not be a string.
\<close>

record component =
  username :: jsstring
  email :: jsstring
  password :: jsstring
  error :: jsval





datatype input = Username | Email | Password






record request =
  url :: string
  http_method :: string
  headers :: "(string \<times> string) list"
  body :: jsstring

datatype call =
    PreventDefault
  | SetError jsval
  | Fetch request
  | Login jsval jsval
  | Navigate string

record ui =
  comp :: component
  calls :: "call list"

definition preventDefault :: "ui \<Rightarrow> ui" where
  "preventDefault s = s\<lparr>calls := calls s @ [PreventDefault]\<rparr>"

definition setError :: "jsval \<Rightarrow> ui \<Rightarrow> ui" where
  "setError v s = s\<lparr>comp := (comp s)\<lparr>error := v\<rparr>, calls := calls s @ [SetError v]\<rparr>"

definition fetch :: "request \<Rightarrow> ui \<Rightarrow> ui" where
  "fetch r s = s\<lparr>calls := calls s @ [Fetch r]\<rparr>"

text \<open>
  Modelled from the spec: \<^verbatim>\<open>login\<close> comes from \<^verbatim>\<open>./AuthContext\<close>, a module of the
  application whose code is not at hand. The specification gives its contract as
  \<^verbatim>\<open>establishSession(user, accessToken) -> void\<close>: it is called for its effect on the
  session store and returns. The call is recorded with its two arguments.
\<close>

definition login :: "jsval \<Rightarrow> jsval \<Rightarrow> ui \<Rightarrow> ui" where
  "login u t s = s\<lparr>calls := calls s @ [Login u t]\<rparr>"

text \<open>
  Modelled from the spec: \<^verbatim>\<open>navigate\<close> is the router's
  \<^verbatim>\<open>navigateTo(path) -> void\<close>; the call is recorded with its path.
\<close>

definition navigate :: "string \<Rightarrow> ui \<Rightarrow> ui" where
  "navigate p s = s\<lparr>calls := calls s @ [Navigate p]\<rparr>"

subsection \<open>The platform: \<^verbatim>\<open>fetch\<close> and \<^verbatim>\<open>res.json()\<close>\<close>

text \<open>
  A promise of the platform stays pending, rejects with a reason, or resolves. A response
  has a status and a body; \<^verbatim>\<open>res.json()\<close> is a promise of the parsed body, and
  \<^verbatim>\<open>res.ok\<close> is true for a status from 200 to 299.
\<close>

datatype 'a promise = Pending | Rejects jsval | Resolves 'a

record response =
  status :: nat
  json :: "json promise"

definition ok :: "response \<Rightarrow> bool" where
  "ok res = (200 \<le> status res \<and> status res \<le> 299)"

subsection \<open>\<^verbatim>\<open>handleSubmit\<close>\<close>

text \<open>Where an invocation of the \<^verbatim>\<open>async\<close> handler stands.\<close>

datatype task =
    AwaitingFetch
  | AwaitingJson response
  | Fulfilled
  | Rejected js_error

definition register_request :: "component \<Rightarrow> request" where
  "register_request c =
     \<lparr>url = ''https://personal-finance-tracker-gbi4.onrender.com/api/auth/register'',
      http_method = ''POST'',
      headers = [(''Content-Type'', ''application/json'')],
      body = JSON_stringify
        [(str ''username'', username c), (str ''email'', email c),
         (str ''password'', password c)]\<rparr>"

text \<open>Lines 14 to 21: the synchronous part, up to the first \<^verbatim>\<open>await\<close>.\<close>

definition handleSubmit_begin :: "ui \<Rightarrow> ui" where
  "handleSubmit_begin s =
     (let s1 = preventDefault s;
          s2 = setError (Value (JStr [])) s1
      in fetch (register_request (comp s)) s2)"

text \<open>
  Lines 25 to 30, run once \<^verbatim>\<open>data\<close> is there. The arguments of \<^verbatim>\<open>login\<close> are
  evaluated left to right before the call; a read that throws ends the handler there.
\<close>

definition handleSubmit_finish :: "response \<Rightarrow> json \<Rightarrow> ui \<Rightarrow> ui \<times> task" where
  "handleSubmit_finish res data s =
     (if \<not> ok res then
        (case get_prop data Key_error of
           Inl e \<Rightarrow> (s, Rejected e)
         | Inr v \<Rightarrow> (setError v s, Fulfilled))
      else
        (case get_prop data Key_user of
           Inl e \<Rightarrow> (s, Rejected e)
         | Inr u \<Rightarrow>
             (case get_prop data Key_access_token of
                Inl e \<Rightarrow> (s, Rejected e)
              | Inr t \<Rightarrow> (navigate ''/dashboard'' (login u t s), Fulfilled))))"

text \<open>
  One invocation, given what the platform does with the request. Nothing in the handler
  catches: a rejection of either awaited promise rejects the handler's own promise.
\<close>

definition handleSubmit :: "ui \<Rightarrow> response promise \<Rightarrow> ui \<times> task" where
  "handleSubmit s fetched =
     (let s1 = handleSubmit_begin s in
      case fetched of
        Pending \<Rightarrow> (s1, AwaitingFetch)
      | Rejects r \<Rightarrow> (s1, Rejected (Reason r))
      | Resolves res \<Rightarrow>
          (case json res of
             Pending \<Rightarrow> (s1, AwaitingJson res)
           | Rejects r \<Rightarrow> (s1, Rejected (Reason r))
           | Resolves data \<Rightarrow> handleSubmit_finish res data s1))"

subsection \<open>The error paragraph of the render function\<close>

text \<open>
  Line 38, \<^verbatim>\<open>{error && <p ...>{error}</p>}\<close>. The \<^verbatim>\<open>&&\<close> gives the paragraph when
  \<^verbatim>\<open>error\<close> is truthy and \<^verbatim>\<open>error\<close> itself otherwise; of the falsy values React puts
  only a number on the screen (the text \<^verbatim>\<open>0\<close>), and nothing for \<^verbatim>\<open>undefined\<close>,
  \<^verbatim>\<open>null\<close>, \<^verbatim>\<open>false\<close> and the empty string.
\<close>

datatype node = Paragraph jsval | Text_zero | Nothing

definition error_slot :: "jsval \<Rightarrow> node" where
  "error_slot e =
     (if truthy e then Paragraph e
      else (case e of Value (JNum n) \<Rightarrow> Text_zero | _ \<Rightarrow> Nothing))"

subsection \<open>Several invocations on the event loop\<close>

text \<open>
  The handler runs on a single thread and gives control back at each \<^verbatim>\<open>await\<close>. An
  invocation is therefore three pieces, each run without interruption: the beginning,
  when the form is submitted; the step from the response to \<^verbatim>\<open>res.json()\<close>, when the
  request settles; and the rest, when the body is parsed. Invocations are numbered from
  0 in the order of submission, and nothing stops a second one from beginning while the
  first is suspended.
\<close>

record world =
  screen :: ui
  tasks :: "task list"
  on_form :: bool

datatype event =
    Submit
  | FetchRejects nat jsval
  | FetchResolves nat response
  | JsonSettles nat

fun session_call :: "call \<Rightarrow> bool" where
  "session_call (Login u t) = True"
| "session_call (Navigate p) = True"
| "session_call c = False"

fun fetch_call :: "call \<Rightarrow> bool" where
  "fetch_call (Fetch r) = True"
| "fetch_call c = False"

fun error_call :: "call \<Rightarrow> bool" where
  "error_call (SetError v) = True"
| "error_call c = False"

fun navigate_call :: "call \<Rightarrow> bool" where
  "navigate_call (Navigate p) = True"
| "navigate_call c = False"

text \<open>
  Modelled from the spec: the router is not at hand. The specification says that the
  state of the form is discarded on successful navigation. So once \<^verbatim>\<open>navigate\<close> has been
  called the form is no longer on the screen: it cannot be submitted, and a \<^verbatim>\<open>setError\<close>
  made later by a suspended invocation is a call that changes nothing. The calls of such
  an invocation to \<^verbatim>\<open>login\<close> and \<^verbatim>\<open>navigate\<close> are made all the same.
\<close>

definition navigated :: "ui \<Rightarrow> ui \<Rightarrow> bool" where
  "navigated s s' = (filter navigate_call (calls s') \<noteq> filter navigate_call (calls s))"

definition step :: "event \<Rightarrow> world \<Rightarrow> world" where
  "step ev w =
     (case ev of
        Submit \<Rightarrow>
          (if on_form w
           then w\<lparr>screen := handleSubmit_begin (screen w), tasks := tasks w @ [AwaitingFetch]\<rparr>
           else w)
      | FetchRejects i r \<Rightarrow>
          (if i < length (tasks w) \<and> tasks w ! i = AwaitingFetch
           then w\<lparr>tasks := (tasks w)[i := Rejected (Reason r)]\<rparr>
           else w)
      | FetchResolves i res \<Rightarrow>
          (if i < length (tasks w) \<and> tasks w ! i = AwaitingFetch
           then w\<lparr>tasks := (tasks w)[i := AwaitingJson res]\<rparr>
           else w)
      | JsonSettles i \<Rightarrow>
          (if i < length (tasks w) then
             (case tasks w ! i of
                AwaitingJson res \<Rightarrow>
                  (case json res of
                     Pending \<Rightarrow> w
                   | Rejects r \<Rightarrow> w\<lparr>tasks := (tasks w)[i := Rejected (Reason r)]\<rparr>
                   | Resolves data \<Rightarrow>
                       (case handleSubmit_finish res data (screen w) of
                          (s', t) \<Rightarrow>
                            w\<lparr>screen := (if on_form w then s' else s'\<lparr>comp := comp (screen w)\<rparr>),
                              tasks := (tasks w)[i := t],
                              on_form := (on_form w \<and> \<not> navigated (screen w) s')\<rparr>))
              | _ \<Rightarrow> w)
           else w))"

definition run :: "event list \<Rightarrow> world \<Rightarrow> world" where
  "run evs w = fold step evs w"

definition mounted :: "ui \<Rightarrow> world" where
  "mounted s = \<lparr>screen = s, tasks = [], on_form = True\<rparr>"

text \<open>The response to invocation \<open>i\<close> arrives, and later its body is parsed.\<close>

definition settle :: "nat \<Rightarrow> response \<Rightarrow> event list" where
  "settle i res = [FetchResolves i res, JsonSettles i]"




subsection \<open>Sample data\<close>

definition form_ann :: ui where
  "form_ann =
     \<lparr>comp = \<lparr>username = str ''ann'', email = str ''ann@example.org'',
              password = str '' s3cret '',
              error = Value (JStr ''Email already exists'')\<rparr>,
      calls = []\<rparr>"

definition ann_user :: json where
  "ann_user = JObj [(''id'', JNum 1), (''username'', JStr ''ann'')]"

definition created :: response where
  "created =
     \<lparr>status = 201,
      json = Resolves (JObj [(''user'', ann_user), (''access_token'', JStr ''tok'')])\<rparr>"

definition conflict :: response where
  "conflict = \<lparr>status = 409, json = Resolves (JObj [(''error'', JStr ''Email already exists'')])\<rparr>"

definition server_error :: response where
  "server_error = \<lparr>status = 500, json = Resolves (JObj [(''error'', JStr ''Server error'')])\<rparr>"

definition bad_gateway :: response where
  "bad_gateway = \<lparr>status = 502, json = Rejects (Value (JStr ''SyntaxError''))\<rparr>"

definition no_message :: response where
  "no_message = \<lparr>status = 400, json = Resolves (JObj [(''message'', JStr ''Bad request'')])\<rparr>"

definition null_failure :: response where
  "null_failure = \<lparr>status = 500, json = Resolves JNull\<rparr>"



definition no_content :: response where
  "no_content = \<lparr>status = 204, json = Rejects (Value (JStr ''SyntaxError''))\<rparr>"

definition null_created :: response where
  "null_created = \<lparr>status = 201, json = Resolves JNull\<rparr>"

definition null_not_found :: response where
  "null_not_found = \<lparr>status = 404, json = Resolves JNull\<rparr>"

definition gateway_page :: response where
  "gateway_page = \<lparr>status = 504, json = Rejects (Value (JStr ''SyntaxError''))\<rparr>"



section \<open>Properties of the submission handler\<close>

subsection \<open>Reading back what \<^verbatim>\<open>JSON.stringify\<close> wrote\<close>













subsection \<open>What the inputs report\<close>




subsection \<open>The pieces of the handler\<close>

lemma begin_comp: "comp (handleSubmit_begin s) = (comp s)\<lparr>error := Value (JStr [])\<rparr>"
  by (simp add: handleSubmit_begin_def preventDefault_def setError_def fetch_def)

lemma begin_calls:
  "calls (handleSubmit_begin s) =
   calls s @ [PreventDefault, SetError (Value (JStr [])), Fetch (register_request (comp s))]"
  by (simp add: handleSubmit_begin_def preventDefault_def setError_def fetch_def)

lemma finish_failure:
  "\<not> ok res \<Longrightarrow> get_prop data Key_error = Inr v \<Longrightarrow>
   handleSubmit_finish res data s = (setError v s, Fulfilled)"
  by (simp add: handleSubmit_finish_def)

lemma finish_success:
  "ok res \<Longrightarrow> get_prop data Key_user = Inr u \<Longrightarrow> get_prop data Key_access_token = Inr t \<Longrightarrow>
   handleSubmit_finish res data s = (navigate ''/dashboard'' (login u t s), Fulfilled)"
  by (simp add: handleSubmit_finish_def)

lemma finish_null:
  "handleSubmit_finish res JNull s =
   (s, Rejected (TypeError_read_of_null (if ok res then Key_user else Key_error)))"
  by (simp add: handleSubmit_finish_def)


lemma resolved:
  "json res = Resolves data \<Longrightarrow>
   handleSubmit s (Resolves res) = handleSubmit_finish res data (handleSubmit_begin s)"
  by (simp add: handleSubmit_def)

lemma finish_calls_extend:
  "\<exists>rest. calls (fst (handleSubmit_finish res data s)) = calls s @ rest"
  by (auto simp add: handleSubmit_finish_def setError_def login_def navigate_def
      split: sum.splits)

lemma handleSubmit_calls_extend:
  "\<exists>rest. calls (fst (handleSubmit s fetched)) = calls (handleSubmit_begin s) @ rest"
proof (cases fetched)
  case (Resolves res)
  then show ?thesis
    using finish_calls_extend[of res _ "handleSubmit_begin s"]
    by (cases "json res") (simp_all add: handleSubmit_def Let_def)
qed (simp_all add: handleSubmit_def Let_def)


lemma get_prop_field:
  assumes "data \<noteq> JNull"
  shows "get_prop data Key_error = Inr (field_value data ''error'')"
    and "get_prop data Key_user = Inr (field_value data ''user'')"
    and "get_prop data Key_access_token = Inr (field_value data ''access_token'')"
  using assms by (cases data; simp)+

lemma finish_success_quiet:
  assumes "ok res"
  shows "filter error_call (calls (fst (handleSubmit_finish res data s))) =
         filter error_call (calls s)"
    and "comp (fst (handleSubmit_finish res data s)) = comp s"
  using assms
  by (simp_all add: handleSubmit_finish_def login_def navigate_def split: sum.splits)

lemma finish_failure_quiet:
  assumes "\<not> ok res"
  shows "filter session_call (calls (fst (handleSubmit_finish res data s))) =
         filter session_call (calls s)"
  using assms
  by (simp add: handleSubmit_finish_def setError_def split: sum.splits)

subsection \<open>Success: session, then dashboard\<close>

text \<open>
  Claim C1, as stated, fails for two kinds of 2xx response. A 204 has no JSON body:
  \<^verbatim>\<open>res.json()\<close> rejects, and the handler is over before line 25. A 201 whose body is the
  JSON text \<^verbatim>\<open>null\<close> parses, but reading \<^verbatim>\<open>data.user\<close> throws. In both, \<^verbatim>\<open>login\<close> and
  \<^verbatim>\<open>navigate\<close> are never called.
\<close>

theorem success_without_session_counterexample:
  "status no_content = 204
   \<and> filter session_call (calls (fst (handleSubmit form_ann (Resolves no_content)))) = []
   \<and> snd (handleSubmit form_ann (Resolves no_content)) = Rejected (Reason (Value (JStr ''SyntaxError'')))
   \<and> status null_created = 201
   \<and> json null_created = Resolves JNull
   \<and> filter session_call (calls (fst (handleSubmit form_ann (Resolves null_created)))) = []
   \<and> snd (handleSubmit form_ann (Resolves null_created)) = Rejected (TypeError_read_of_null Key_user)"
  by (simp add: no_content_def null_created_def handleSubmit_def Let_def finish_null ok_def
      begin_calls form_ann_def)

text \<open>
  Claim C1, amended. For every 2xx response no error message is set: the only
  \<^verbatim>\<open>setError\<close> of the invocation is the clearing one and the error state ends empty. When
  the body parses to a JSON value other than \<^verbatim>\<open>null\<close>, the handler calls \<^verbatim>\<open>login\<close> exactly
  once, with the body's \<^verbatim>\<open>user\<close> and \<^verbatim>\<open>access_token\<close> values (\<^verbatim>\<open>undefined\<close> for a field the
  body does not have), and after that call navigates to \<^verbatim>\<open>/dashboard\<close>; the calls of the
  whole invocation are listed in order.
\<close>

theorem success_login_with_body_fields:
  assumes "200 \<le> status res \<and> status res \<le> 299"
  shows "error (comp (fst (handleSubmit s (Resolves res)))) = Value (JStr [])
       \<and> filter error_call (calls (fst (handleSubmit s (Resolves res)))) =
           filter error_call (calls s) @ [SetError (Value (JStr []))]
       \<and> (\<forall>data. json res = Resolves data \<and> data \<noteq> JNull \<longrightarrow>
             calls (fst (handleSubmit s (Resolves res))) =
               calls s @ [PreventDefault, SetError (Value (JStr [])),
                          Fetch (register_request (comp s)),
                          Login (field_value data ''user'') (field_value data ''access_token''),
                          Navigate ''/dashboard'']
             \<and> snd (handleSubmit s (Resolves res)) = Fulfilled)"
proof -
  have ok: "ok res" using assms by (simp add: ok_def)
  have quiet: "error (comp (fst (handleSubmit s (Resolves res)))) = Value (JStr [])
       \<and> filter error_call (calls (fst (handleSubmit s (Resolves res)))) =
           filter error_call (calls s) @ [SetError (Value (JStr []))]"
    by (cases "json res")
       (simp_all add: handleSubmit_def Let_def finish_success_quiet[OF ok] begin_comp begin_calls)
  have "calls (fst (handleSubmit s (Resolves res))) =
               calls s @ [PreventDefault, SetError (Value (JStr [])),
                          Fetch (register_request (comp s)),
                          Login (field_value data ''user'') (field_value data ''access_token''),
                          Navigate ''/dashboard'']
             \<and> snd (handleSubmit s (Resolves res)) = Fulfilled"
    if body: "json res = Resolves data" and "data \<noteq> JNull" for data
  proof -
    note u = get_prop_field(2)[OF that(2)] and t = get_prop_field(3)[OF that(2)]
    show ?thesis
      by (simp only: resolved[OF body] finish_success[OF ok u t])
         (simp add: navigate_def login_def begin_calls)
  qed
  with quiet show ?thesis by blast
qed

theorem success_login_with_body_fields_witness:
  "(200 \<le> status created \<and> status created \<le> 299)
   \<and> error (comp (fst (handleSubmit form_ann (Resolves created)))) = Value (JStr [])
   \<and> calls (fst (handleSubmit form_ann (Resolves created))) =
       [PreventDefault, SetError (Value (JStr [])), Fetch (register_request (comp form_ann)),
        Login (Value ann_user) (Value (JStr ''tok'')), Navigate ''/dashboard'']
   \<and> snd (handleSubmit form_ann (Resolves created)) = Fulfilled"
proof -
  have range: "200 \<le> status created \<and> status created \<le> 299"
    and body: "json created = Resolves (JObj [(''user'', ann_user), (''access_token'', JStr ''tok'')])"
    by (simp_all add: created_def)
  note inst = success_login_with_body_fields [OF range, of form_ann]
  have "calls (fst (handleSubmit form_ann (Resolves created))) =
       calls form_ann @ [PreventDefault, SetError (Value (JStr [])),
        Fetch (register_request (comp form_ann)),
        Login (field_value (JObj [(''user'', ann_user), (''access_token'', JStr ''tok'')]) ''user'')
          (field_value (JObj [(''user'', ann_user), (''access_token'', JStr ''tok'')])
            ''access_token''),
        Navigate ''/dashboard'']
      \<and> snd (handleSubmit form_ann (Resolves created)) = Fulfilled"
    using inst body by blast
  then have "calls (fst (handleSubmit form_ann (Resolves created))) =
       [PreventDefault, SetError (Value (JStr [])), Fetch (register_request (comp form_ann)),
        Login (Value ann_user) (Value (JStr ''tok'')), Navigate ''/dashboard'']
      \<and> snd (handleSubmit form_ann (Resolves created)) = Fulfilled"
    by (simp add: form_ann_def)
  with range inst show ?thesis by blast
qed

subsection \<open>Application-level failure: the server's message, verbatim\<close>

text \<open>
  Claim C2, as stated, fails for two kinds of non-2xx response. A 504 whose body is a
  gateway's page and not JSON makes \<^verbatim>\<open>res.json()\<close> reject; a 404 whose body is the JSON
  text \<^verbatim>\<open>null\<close> makes the read of \<^verbatim>\<open>data.error\<close> throw. In both the error state is left
  empty, where the claim has it set from the body, and the handler's promise rejects.
\<close>

theorem failure_without_message_counterexample:
  "status gateway_page = 504
   \<and> error (comp (fst (handleSubmit form_ann (Resolves gateway_page)))) = Value (JStr [])
   \<and> filter error_call (calls (fst (handleSubmit form_ann (Resolves gateway_page)))) =
       [SetError (Value (JStr []))]
   \<and> snd (handleSubmit form_ann (Resolves gateway_page)) =
       Rejected (Reason (Value (JStr ''SyntaxError'')))
   \<and> status null_not_found = 404
   \<and> json null_not_found = Resolves JNull
   \<and> error (comp (fst (handleSubmit form_ann (Resolves null_not_found)))) = Value (JStr [])
   \<and> filter error_call (calls (fst (handleSubmit form_ann (Resolves null_not_found)))) =
       [SetError (Value (JStr []))]
   \<and> snd (handleSubmit form_ann (Resolves null_not_found)) =
       Rejected (TypeError_read_of_null Key_error)"
  by (simp add: gateway_page_def null_not_found_def handleSubmit_def Let_def finish_null ok_def
      begin_calls begin_comp form_ann_def)

text \<open>
  Claim C2, amended. For every non-2xx response neither \<^verbatim>\<open>login\<close> nor \<^verbatim>\<open>navigate\<close> is
  called. When the body parses to a JSON value other than \<^verbatim>\<open>null\<close>, the handler sets the
  error state to exactly the value of the body's \<^verbatim>\<open>error\<close> field, as it is
  (\<^verbatim>\<open>undefined\<close> when the body has no such field), and that is the last call it makes.
\<close>

theorem failure_sets_error_from_body:
  assumes "\<not> (200 \<le> status res \<and> status res \<le> 299)"
  shows "filter session_call (calls (fst (handleSubmit s (Resolves res)))) =
           filter session_call (calls s)
       \<and> (\<forall>data. json res = Resolves data \<and> data \<noteq> JNull \<longrightarrow>
             error (comp (fst (handleSubmit s (Resolves res)))) = field_value data ''error''
             \<and> calls (fst (handleSubmit s (Resolves res))) =
                 calls s @ [PreventDefault, SetError (Value (JStr [])),
                            Fetch (register_request (comp s)),
                            SetError (field_value data ''error'')]
             \<and> snd (handleSubmit s (Resolves res)) = Fulfilled)"
proof -
  have bad: "\<not> ok res" using assms by (simp add: ok_def)
  have quiet: "filter session_call (calls (fst (handleSubmit s (Resolves res)))) =
           filter session_call (calls s)"
    by (cases "json res")
       (simp_all add: handleSubmit_def Let_def finish_failure_quiet[OF bad] begin_calls)
  have "error (comp (fst (handleSubmit s (Resolves res)))) = field_value data ''error''
             \<and> calls (fst (handleSubmit s (Resolves res))) =
                 calls s @ [PreventDefault, SetError (Value (JStr [])),
                            Fetch (register_request (comp s)),
                            SetError (field_value data ''error'')]
             \<and> snd (handleSubmit s (Resolves res)) = Fulfilled"
    if body: "json res = Resolves data" and "data \<noteq> JNull" for data
  proof -
    note e = get_prop_field(1)[OF that(2)]
    show ?thesis
      by (simp only: resolved[OF body] finish_failure[OF bad e])
         (simp add: setError_def begin_calls)
  qed
  with quiet show ?thesis by blast
qed

theorem failure_sets_error_from_body_witness:
  "\<not> (200 \<le> status conflict \<and> status conflict \<le> 299)
   \<and> error (comp (fst (handleSubmit form_ann (Resolves conflict))))
       = Value (JStr ''Email already exists'')
   \<and> calls (fst (handleSubmit form_ann (Resolves conflict))) =
       [PreventDefault, SetError (Value (JStr [])), Fetch (register_request (comp form_ann)),
        SetError (Value (JStr ''Email already exists''))]
   \<and> filter session_call (calls (fst (handleSubmit form_ann (Resolves conflict)))) = []
   \<and> snd (handleSubmit form_ann (Resolves conflict)) = Fulfilled"
proof -
  have range: "\<not> (200 \<le> status conflict \<and> status conflict \<le> 299)"
    and body: "json conflict = Resolves (JObj [(''error'', JStr ''Email already exists'')])"
    by (simp_all add: conflict_def)
  note inst = failure_sets_error_from_body [OF range, of form_ann]
  have "error (comp (fst (handleSubmit form_ann (Resolves conflict)))) =
          field_value (JObj [(''error'', JStr ''Email already exists'')]) ''error''
      \<and> calls (fst (handleSubmit form_ann (Resolves conflict))) =
          calls form_ann @ [PreventDefault, SetError (Value (JStr [])),
            Fetch (register_request (comp form_ann)),
            SetError (field_value (JObj [(''error'', JStr ''Email already exists'')]) ''error'')]
      \<and> snd (handleSubmit form_ann (Resolves conflict)) = Fulfilled"
    using inst body by blast
  then have "error (comp (fst (handleSubmit form_ann (Resolves conflict))))
       = Value (JStr ''Email already exists'')
   \<and> calls (fst (handleSubmit form_ann (Resolves conflict))) =
       [PreventDefault, SetError (Value (JStr [])), Fetch (register_request (comp form_ann)),
        SetError (Value (JStr ''Email already exists''))]
   \<and> snd (handleSubmit form_ann (Resolves conflict)) = Fulfilled"
    by (simp add: form_ann_def)
  moreover have "filter session_call (calls (fst (handleSubmit form_ann (Resolves conflict)))) = []"
    using inst by (simp add: form_ann_def)
  ultimately show ?thesis using range by blast
qed

subsection \<open>The error is cleared first\<close>

text \<open>
  Claim C4. The beginning of every invocation sets the error state to the empty string,
  whatever it was, and does so before it issues the request: the clearing call comes
  before the \<^verbatim>\<open>fetch\<close> call. While the request is pending (no response has arrived) the
  handler is suspended in exactly that state, and whatever the platform then does, the
  calls of the invocation start with these.
\<close>

theorem handleSubmit_clears_error_first:
  "error (comp (handleSubmit_begin s)) = Value (JStr [])
   \<and> calls (handleSubmit_begin s) =
       calls s @ [PreventDefault, SetError (Value (JStr [])), Fetch (register_request (comp s))]
   \<and> handleSubmit s Pending = (handleSubmit_begin s, AwaitingFetch)
   \<and> (\<exists>rest. calls (fst (handleSubmit s fetched)) = calls (handleSubmit_begin s) @ rest)"
  using handleSubmit_calls_extend [of s fetched]
  by (simp add: begin_comp begin_calls handleSubmit_def)

theorem handleSubmit_clears_error_first_witness:
  "error (comp form_ann) = Value (JStr ''Email already exists'')
   \<and> error (comp (handleSubmit_begin form_ann)) = Value (JStr [])
   \<and> handleSubmit form_ann Pending = (handleSubmit_begin form_ann, AwaitingFetch)"
  using handleSubmit_clears_error_first [of form_ann Pending]
  by (simp add: form_ann_def)

subsection \<open>One request for each submission\<close>

text \<open>
  Claim C5. Whatever the platform does with the request (leaves it pending, rejects it,
  answers with any status and any body), an invocation makes exactly one \<^verbatim>\<open>fetch\<close> call:
  a POST to the fixed absolute URL, which ends in \<^verbatim>\<open>/api/auth/register\<close>, with the
  single header \<^verbatim>\<open>Content-Type: application/json\<close>. There is no second request and no
  retry.
\<close>

theorem handleSubmit_one_request:
  "filter fetch_call (calls (fst (handleSubmit s fetched))) =
     filter fetch_call (calls s) @ [Fetch (register_request (comp s))]
   \<and> url (register_request (comp s)) =
       ''https://personal-finance-tracker-gbi4.onrender.com/api/auth/register''
   \<and> (\<exists>origin. url (register_request (comp s)) = origin @ ''/api/auth/register'')
   \<and> http_method (register_request (comp s)) = ''POST''
   \<and> headers (register_request (comp s)) = [(''Content-Type'', ''application/json'')]"
proof -
  have fin: "filter fetch_call (calls (fst (handleSubmit_finish res data s1))) =
      filter fetch_call (calls s1)" for res data s1
    by (simp add: handleSubmit_finish_def setError_def login_def navigate_def
        split: sum.splits)
  have beg: "filter fetch_call (calls (handleSubmit_begin s)) =
      filter fetch_call (calls s) @ [Fetch (register_request (comp s))]"
    by (simp add: begin_calls)
  have one: "filter fetch_call (calls (fst (handleSubmit s fetched))) =
      filter fetch_call (calls s) @ [Fetch (register_request (comp s))]"
  proof (cases fetched)
    case (Resolves res)
    then show ?thesis
      by (cases "json res") (simp_all add: handleSubmit_def Let_def fin beg)
  qed (simp_all add: handleSubmit_def Let_def beg)
  have "url (register_request (comp s)) =
      ''https://personal-finance-tracker-gbi4.onrender.com'' @ ''/api/auth/register''"
    by (simp add: register_request_def)
  then have suf: "\<exists>origin. url (register_request (comp s)) = origin @ ''/api/auth/register''"
    by blast
  show ?thesis
    using one suf by (simp add: register_request_def)
qed

theorem handleSubmit_one_request_witness:
  "filter fetch_call (calls (fst (handleSubmit form_ann (Resolves server_error)))) =
     [Fetch (register_request (comp form_ann))]
   \<and> http_method (register_request (comp form_ann)) = ''POST''"
  using handleSubmit_one_request [of form_ann "Resolves server_error"]
  by (simp add: form_ann_def)

subsection \<open>A failure leaves the fields alone\<close>

text \<open>
  Claim C6. After a submission answered with a non-2xx status, \<^verbatim>\<open>username\<close>, \<^verbatim>\<open>email\<close>
  and \<^verbatim>\<open>password\<close> hold what they held before; the component differs from the one
  before the submission in its error state at most.
\<close>

theorem handleSubmit_failure_keeps_fields:
  assumes "\<not> (200 \<le> status res \<and> status res \<le> 299)"
  shows "username (comp (fst (handleSubmit s (Resolves res)))) = username (comp s)
       \<and> email (comp (fst (handleSubmit s (Resolves res)))) = email (comp s)
       \<and> password (comp (fst (handleSubmit s (Resolves res)))) = password (comp s)
       \<and> comp (fst (handleSubmit s (Resolves res))) =
           (comp s)\<lparr>error := error (comp (fst (handleSubmit s (Resolves res))))\<rparr>"
proof -
  have "\<not> ok res" using assms by (simp add: ok_def)
  then have fin: "comp (fst (handleSubmit_finish res data s1)) =
      (comp s1)\<lparr>error := error (comp (fst (handleSubmit_finish res data s1)))\<rparr>" for data s1
    by (simp add: handleSubmit_finish_def setError_def split: sum.splits)
  have "comp (fst (handleSubmit s (Resolves res))) =
      (comp s)\<lparr>error := error (comp (fst (handleSubmit s (Resolves res))))\<rparr>"
  proof (cases "json res")
    case (Resolves data)
    then show ?thesis
      using fin[of data "handleSubmit_begin s"] by (simp add: resolved begin_comp)
  qed (simp_all add: handleSubmit_def Let_def begin_comp)
  then show ?thesis
    by (metis component.select_convs(1-3) component.surjective component.update_convs(4))
qed

theorem handleSubmit_failure_keeps_fields_witness:
  "\<not> (200 \<le> status conflict \<and> status conflict \<le> 299)
   \<and> username (comp (fst (handleSubmit form_ann (Resolves conflict)))) = str ''ann''
   \<and> email (comp (fst (handleSubmit form_ann (Resolves conflict)))) = str ''ann@example.org''
   \<and> password (comp (fst (handleSubmit form_ann (Resolves conflict)))) = str '' s3cret ''"
  using handleSubmit_failure_keeps_fields [of conflict form_ann]
  by (simp add: conflict_def form_ann_def)

subsection \<open>Transport and parse failures are not caught\<close>

text \<open>
  Claim C7. When the request rejects with reason \<open>r\<close>, or a response arrives (with any
  status, an error status included) and parsing its body as JSON rejects with reason \<open>r\<close>,
  the handler's own promise rejects with that same reason: nothing catches it. The
  handler has then made the three calls of its beginning and no other: the error state
  is empty, not set to a message, and there is neither \<^verbatim>\<open>login\<close> nor \<^verbatim>\<open>navigate\<close>.
\<close>

theorem handleSubmit_rejection_propagates:
  assumes "fetched = Rejects r \<or> (\<exists>res. fetched = Resolves res \<and> json res = Rejects r)"
  shows "snd (handleSubmit s fetched) = Rejected (Reason r)
   \<and> calls (fst (handleSubmit s fetched)) =
       calls s @ [PreventDefault, SetError (Value (JStr [])), Fetch (register_request (comp s))]
   \<and> error (comp (fst (handleSubmit s fetched))) = Value (JStr [])
   \<and> filter session_call (calls (fst (handleSubmit s fetched))) = filter session_call (calls s)"
  using assms by (auto simp add: handleSubmit_def Let_def begin_calls begin_comp)

theorem handleSubmit_rejection_propagates_witness:
  "json bad_gateway = Rejects (Value (JStr ''SyntaxError''))
   \<and> snd (handleSubmit form_ann (Resolves bad_gateway)) = Rejected (Reason (Value (JStr ''SyntaxError'')))
   \<and> calls (fst (handleSubmit form_ann (Resolves bad_gateway))) =
       [PreventDefault, SetError (Value (JStr [])), Fetch (register_request (comp form_ann))]
   \<and> error (comp (fst (handleSubmit form_ann (Resolves bad_gateway)))) = Value (JStr [])"
  using handleSubmit_rejection_propagates
    [of "Resolves bad_gateway" "Value (JStr ''SyntaxError'')" form_ann]
  by (simp add: bad_gateway_def form_ann_def)

subsection \<open>The request body carries the fields as they are\<close>




subsection \<open>A failure response without an \<^verbatim>\<open>error\<close> field\<close>

text \<open>
  Claim C8, as stated, fails for one body. The JSON text \<^verbatim>\<open>null\<close> parses, and the value
  \<^verbatim>\<open>null\<close> has no \<^verbatim>\<open>error\<close> field; but reading \<^verbatim>\<open>data.error\<close> from it throws a
  \<^verbatim>\<open>TypeError\<close>, so \<^verbatim>\<open>setError\<close> is never reached: the error state stays empty instead of
  becoming \<^verbatim>\<open>undefined\<close>, and the handler's promise rejects.
\<close>

theorem null_body_failure_counterexample:
  "status null_failure = 500
   \<and> json null_failure = Resolves JNull
   \<and> error (comp (fst (handleSubmit form_ann (Resolves null_failure)))) = Value (JStr [])
   \<and> error (comp (fst (handleSubmit form_ann (Resolves null_failure)))) \<noteq> Undefined
   \<and> calls (fst (handleSubmit form_ann (Resolves null_failure))) =
       [PreventDefault, SetError (Value (JStr [])), Fetch (register_request (comp form_ann))]
   \<and> snd (handleSubmit form_ann (Resolves null_failure)) =
       Rejected (TypeError_read_of_null Key_error)"
  by (simp add: null_failure_def resolved finish_null ok_def begin_comp begin_calls form_ann_def)

text \<open>
  Claim C8, amended. For a non-2xx response whose parsed body is a JSON value other than
  \<^verbatim>\<open>null\<close> and has no \<^verbatim>\<open>error\<close> field (an object without that key, or a boolean,
  number, string or array), the handler sets the error state to \<^verbatim>\<open>undefined\<close>; there is no
  fallback message, and line 38 then puts nothing on the screen.
\<close>

theorem handleSubmit_failure_without_error_field:
  assumes "\<not> (200 \<le> status res \<and> status res \<le> 299)"
    and "json res = Resolves data"
    and "data \<noteq> JNull"
    and "\<forall>fs. data = JObj fs \<longrightarrow> map_of fs ''error'' = None"
  shows "error (comp (fst (handleSubmit s (Resolves res)))) = Undefined
       \<and> calls (fst (handleSubmit s (Resolves res))) =
           calls s @ [PreventDefault, SetError (Value (JStr [])),
                      Fetch (register_request (comp s)), SetError Undefined]
       \<and> error_slot (error (comp (fst (handleSubmit s (Resolves res))))) = Nothing"
proof -
  have "get_prop data Key_error = Inr Undefined"
    using assms(3,4) by (cases data) simp_all
  moreover have "\<not> ok res" using assms(1) by (simp add: ok_def)
  ultimately have "handleSubmit s (Resolves res) =
      (setError Undefined (handleSubmit_begin s), Fulfilled)"
    using assms(2) by (simp add: resolved finish_failure)
  then show ?thesis
    by (simp add: setError_def begin_calls error_slot_def)
qed

theorem handleSubmit_failure_without_error_field_witness:
  "\<not> (200 \<le> status no_message \<and> status no_message \<le> 299)
   \<and> json no_message = Resolves (JObj [(''message'', JStr ''Bad request'')])
   \<and> error (comp (fst (handleSubmit form_ann (Resolves no_message)))) = Undefined
   \<and> error_slot (error (comp (fst (handleSubmit form_ann (Resolves no_message))))) = Nothing"
  using handleSubmit_failure_without_error_field
    [of no_message "JObj [(''message'', JStr ''Bad request'')]" form_ann]
  by (simp add: no_message_def error_slot_def)

subsection \<open>A success response is not validated\<close>




subsection \<open>Two submissions in flight\<close>


lemma run_single_submission:
  "screen (run (Submit # settle 0 res) (mounted s)) = fst (handleSubmit s (Resolves res))
   \<and> tasks (run (Submit # settle 0 res) (mounted s)) = [snd (handleSubmit s (Resolves res))]"
  by (cases "json res")
     (simp_all add: run_def settle_def mounted_def step_def handleSubmit_def Let_def
       split: prod.splits)

lemma finish_body:
  assumes "data \<noteq> JNull"
  shows "handleSubmit_finish res data s =
     (if ok res
      then (s\<lparr>calls := calls s @ [Login (field_value data ''user'')
                                      (field_value data ''access_token''),
                                    Navigate ''/dashboard'']\<rparr>, Fulfilled)
      else (s\<lparr>comp := (comp s)\<lparr>error := field_value data ''error''\<rparr>,
              calls := calls s @ [SetError (field_value data ''error'')]\<rparr>, Fulfilled))"
  by (simp only: handleSubmit_finish_def get_prop_field[OF assms])
     (simp add: setError_def login_def navigate_def)

lemma step_Submit:
  "on_form w \<Longrightarrow>
   step Submit w = w\<lparr>screen := handleSubmit_begin (screen w), tasks := tasks w @ [AwaitingFetch]\<rparr>"
  by (simp add: step_def)

lemma step_FetchResolves:
  "i < length (tasks w) \<Longrightarrow> tasks w ! i = AwaitingFetch \<Longrightarrow>
   step (FetchResolves i res) w = w\<lparr>tasks := (tasks w)[i := AwaitingJson res]\<rparr>"
  by (simp add: step_def)

lemma step_JsonSettles:
  assumes "i < length (tasks w)" and "tasks w ! i = AwaitingJson res"
    and "json res = Resolves data" and "data \<noteq> JNull"
  shows "step (JsonSettles i) w =
     \<lparr>screen =
        \<lparr>comp = (if on_form w \<and> \<not> ok res
                 then (comp (screen w))\<lparr>error := field_value data ''error''\<rparr>
                 else comp (screen w)),
         calls = calls (screen w) @
           (if ok res
            then [Login (field_value data ''user'') (field_value data ''access_token''),
                  Navigate ''/dashboard'']
            else [SetError (field_value data ''error'')])\<rparr>,
      tasks = (tasks w)[i := Fulfilled],
      on_form = (on_form w \<and> \<not> ok res)\<rparr>"
  using assms(1-3)
  by (simp add: step_def finish_body[OF assms(4)] navigated_def)








end
